theory Spec2Isabelle
  imports Complex_Main "HOL-Library.Word" "HOL-Library.Signed_Division"
begin

unbundle bit_operations_syntax

section \<open>Go values: outcomes of a call, byte slices\<close>

text \<open>
  A call of a Go function of \<^verbatim>\<open>data.go\<close> ends in one of three ways: a run-time panic
  (an index or slice bound out of range, an integer division by zero, a nil pointer), a
  return of \<^verbatim>\<open>(nil, err)\<close>, or a return of \<^verbatim>\<open>(value, nil)\<close>.
\<close>

type_synonym byte = "8 word"

datatype panic = IndexOutOfRange | SliceBoundsOutOfRange | IntegerDivideByZero | NilDereference

datatype error =
    NoDataBlocks
  | BlockCRCError "16 word" "16 word"
  | FragmentCRCError "32 word" "32 word"

datatype 'a outcome = Panics panic | Fails error | Returns 'a

fun and_then :: "'a outcome \<Rightarrow> ('a \<Rightarrow> 'b outcome) \<Rightarrow> 'b outcome" where
  "and_then (Panics p) f = Panics p"
| "and_then (Fails e) f = Fails e"
| "and_then (Returns x) f = f x"

text \<open>
  A Go slice sees \<open>elems\<close> (its \<^verbatim>\<open>len\<close> elements) and may be re-sliced over \<open>spare\<close>,
  the elements of its backing array between its length and its capacity.
\<close>

record byte_slice =
  elems :: "byte list"
  spare :: "byte list"

definition len :: "byte_slice \<Rightarrow> int" where
  "len s = int (length (elems s))"

definition cap :: "byte_slice \<Rightarrow> int" where
  "cap s = int (length (elems s)) + int (length (spare s))"

definition nil_slice :: byte_slice where
  "nil_slice = \<lparr>elems = [], spare = []\<rparr>"

text \<open>\<^verbatim>\<open>make([]byte, n)\<close>: \<open>n\<close> zero bytes, capacity \<open>n\<close>.\<close>

definition make_bytes :: "nat \<Rightarrow> byte_slice" where
  "make_bytes n = \<lparr>elems = replicate n 0, spare = []\<rparr>"

text \<open>\<^verbatim>\<open>s[i]\<close> as a value: the index is checked against the length.\<close>

definition index :: "byte_slice \<Rightarrow> int \<Rightarrow> byte outcome" where
  "index s i =
     (if 0 \<le> i \<and> i < len s then Returns (elems s ! nat i) else Panics IndexOutOfRange)"

text \<open>\<^verbatim>\<open>s[i] = v\<close>.\<close>

definition store :: "byte_slice \<Rightarrow> int \<Rightarrow> byte \<Rightarrow> byte_slice outcome" where
  "store s i v =
     (if 0 \<le> i \<and> i < len s then Returns (s\<lparr>elems := (elems s)[nat i := v]\<rparr>)
      else Panics IndexOutOfRange)"

text \<open>
  \<^verbatim>\<open>s[lo:hi]\<close>: for a slice the upper bound is checked against the capacity, not the
  length. \<^verbatim>\<open>s[lo:]\<close> is \<open>reslice s lo (len s)\<close> and \<^verbatim>\<open>s[:hi]\<close> is \<open>reslice s 0 hi\<close>.
\<close>

definition reslice :: "byte_slice \<Rightarrow> int \<Rightarrow> int \<Rightarrow> byte_slice outcome" where
  "reslice s lo hi =
     (if 0 \<le> lo \<and> lo \<le> hi \<and> hi \<le> cap s
      then Returns \<lparr>elems = take (nat (hi - lo)) (drop (nat lo) (elems s @ spare s)),
                    spare = drop (nat hi) (elems s @ spare s)\<rparr>
      else Panics SliceBoundsOutOfRange)"

text \<open>\<^verbatim>\<open>copy(dst, src)\<close>: the first \<open>min (len dst) (len src)\<close> elements are overwritten.\<close>

definition copy :: "byte_slice \<Rightarrow> byte_slice \<Rightarrow> byte_slice" where
  "copy dst src =
     (let n = min (length (elems dst)) (length (elems src))
      in dst\<lparr>elems := take n (elems src) @ drop n (elems dst)\<rparr>)"

text \<open>
  A window \<^verbatim>\<open>w = s[lo:]\<close> shares the backing array of \<open>s\<close>: after a write through \<open>w\<close>,
  \<open>s\<close> holds its first \<open>lo\<close> elements followed by the elements of \<open>w\<close>.
\<close>

definition write_back :: "byte_slice \<Rightarrow> int \<Rightarrow> byte_slice \<Rightarrow> byte_slice" where
  "write_back s lo w = s\<lparr>elems := take (nat lo) (elems s) @ elems w\<rparr>"

text \<open>A \<^verbatim>\<open>for ... range\<close> loop: the body runs on each element in turn, threading the state.\<close>

primrec for_range :: "('a \<Rightarrow> 's \<Rightarrow> 's outcome) \<Rightarrow> 'a list \<Rightarrow> 's \<Rightarrow> 's outcome" where
  "for_range body [] s = Returns s"
| "for_range body (x # xs) s = and_then (body x s) (for_range body xs)"

section \<open>Constants declared outside data.go\<close>

text \<open>
  Modelled from the spec: the rate-type codes \<^verbatim>\<open>Data\<close>, \<^verbatim>\<open>Rate12Data\<close> and
  \<^verbatim>\<open>Rate34Data\<close> are \<^verbatim>\<open>uint8\<close> constants of the package declared in another file.
  The spec calls them "a small enumerated code"; the values are the data-type codes of
  the air interface. Proofs below use only that the three codes are distinct, which the
  Go compiler requires of the constant keys of the map literal \<^verbatim>\<open>dataBlockLengths\<close>.
\<close>

definition Data :: byte where
  "Data = 6"

definition Rate12Data :: byte where
  "Rate12Data = 7"

definition Rate34Data :: byte where
  "Rate34Data = 8"

text \<open>
  Modelled from the spec: the bit mask \<^verbatim>\<open>B00000001\<close> is declared in another file;
  by the spec "the low bit of byte 0" enters the checksum.
\<close>

definition B00000001 :: byte where
  "B00000001 = 1"

definition MaxPacketFragmentSize :: int where
  "MaxPacketFragmentSize = 1500"

section \<open>Checksum engine\<close>

text \<open>
  Modelled from the spec: \<^verbatim>\<open>crc9\<close>, \<^verbatim>\<open>crc9end\<close>, \<^verbatim>\<open>crc32\<close> and \<^verbatim>\<open>crc32end\<close> are called
  by data.go and defined in another file. Section 4.1 of the spec describes accumulators
  "fed one bit at a time, most-significant-bit first" with the rule
  \<^verbatim>\<open>newBit = ((crc >> (width-1)) ^ inputBit) & 1; crc = (crc << 1) ^ (newBit ? tap : 0)\<close>,
  masked to the register width, and a finalization that flushes zero bits. The spec does
  not give the taps: \<open>0x59\<close> is the CRC-9 polynomial of the air interface, \<open>0x04C11DB7\<close>
  the IEEE 802.3 polynomial in the most-significant-bit-first form this rule uses. The Go
  functions update the accumulator through a pointer; here they return it.
\<close>

definition crc9_poly :: "16 word" where
  "crc9_poly = 0x59"

definition crc32_poly :: "32 word" where
  "crc32_poly = 0x04C11DB7"

definition crc9_bit :: "16 word \<Rightarrow> bool \<Rightarrow> 16 word" where
  "crc9_bit crc inputBit =
     (let newBit = (bit crc 8 \<noteq> inputBit)
      in (push_bit 1 crc XOR (if newBit then crc9_poly else 0)) AND 0x1FF)"

definition crc9 :: "16 word \<Rightarrow> byte \<Rightarrow> nat \<Rightarrow> 16 word" where
  "crc9 crc b bits = foldl (\<lambda>c k. crc9_bit c (bit b k)) crc (rev [0..<bits])"

definition crc9end :: "16 word \<Rightarrow> nat \<Rightarrow> 16 word" where
  "crc9end crc bits = foldl (\<lambda>c k. crc9_bit c False) crc [0..<bits]"

definition crc32_bit :: "32 word \<Rightarrow> bool \<Rightarrow> 32 word" where
  "crc32_bit crc inputBit =
     (let newBit = (bit crc 31 \<noteq> inputBit)
      in push_bit 1 crc XOR (if newBit then crc32_poly else 0))"

definition crc32 :: "32 word \<Rightarrow> byte \<Rightarrow> 32 word" where
  "crc32 crc b = foldl (\<lambda>c k. crc32_bit c (bit b k)) crc (rev [0..<8])"

definition crc32end :: "32 word \<Rightarrow> 32 word" where
  "crc32end crc = foldl (\<lambda>c k. crc32_bit c False) crc [0..<32]"

section \<open>Block codec\<close>

definition crc9Masks :: "byte \<rightharpoonup> 16 word" where
  "crc9Masks = [Rate12Data \<mapsto> 0x00f0, Rate34Data \<mapsto> 0x01ff]"

text \<open>Reading a Go map at a key it does not hold gives the zero value.\<close>

definition calculateCRC9 :: "byte \<Rightarrow> byte_slice \<Rightarrow> byte \<Rightarrow> 16 word" where
  "calculateCRC9 serial data dataType =
     (let crc = foldl (\<lambda>crc block. crc9 crc block 8) 0 (elems data);
          crc = crc9 crc serial 7;
          crc = crc9end crc 8;
          crc = NOT crc;
          crc = crc AND 0x01ff;
          crc = crc XOR (case crc9Masks dataType of None \<Rightarrow> 0 | Some m \<Rightarrow> m)
      in crc)"

definition dataBlockLengths :: "byte \<rightharpoonup> int" where
  "dataBlockLengths = [Rate12Data \<mapsto> 12, Rate34Data \<mapsto> 18, Data \<mapsto> 22]"

record DataBlock =
  db_Serial :: byte
  db_CRC :: "16 word"
  db_OK :: bool
  db_Data :: byte_slice
  db_Length :: byte

definition userDataLength :: "byte \<Rightarrow> bool \<Rightarrow> int" where
  "userDataLength dataType confirmed =
     (let (size, ok) = (case dataBlockLengths dataType of None \<Rightarrow> (0, False)
                        | Some n \<Rightarrow> (n, True))
      in if ok \<and> confirmed then size - 2 else size)"

text \<open>
  Lines 65 to 68 of \<^verbatim>\<open>ParseDataBlock\<close>: the fields of a confirmed block, read from the
  wire bytes before the checksum is compared.
\<close>

definition confirmedFields :: "byte_slice \<Rightarrow> DataBlock \<Rightarrow> DataBlock outcome" where
  "confirmedFields data db =
     and_then (index data 0) (\<lambda>b0.
     let db = db\<lparr>db_Serial := drop_bit 1 b0\<rparr> in
     and_then (index data 1) (\<lambda>b1.
     let db = db\<lparr>db_CRC := push_bit 8 (ucast (b0 AND B00000001)) OR ucast b1\<rparr>;
         db = db\<lparr>db_Data := make_bytes (unat (db_Length db))\<rparr> in
     and_then (reslice data 2 (uint (2 + db_Length db))) (\<lambda>src.
     Returns (db\<lparr>db_Data := copy (db_Data db) src\<rparr>))))"

definition ParseDataBlock :: "byte_slice \<Rightarrow> byte \<Rightarrow> bool \<Rightarrow> DataBlock outcome" where
  "ParseDataBlock data dataType confirmed =
     (let db = \<lparr>db_Serial = 0, db_CRC = 0, db_OK = False, db_Data = nil_slice,
                db_Length = word_of_int (userDataLength dataType confirmed)\<rparr>
      in if confirmed then
           and_then (confirmedFields data db) (\<lambda>db.
           let crc = calculateCRC9 (db_Serial db) (db_Data db) dataType in
           if crc \<noteq> db_CRC db then Fails (BlockCRCError crc (db_CRC db))
           else Returns (db\<lparr>db_OK := True\<rparr>))
         else
           let db = db\<lparr>db_Data := make_bytes (unat (db_Length db))\<rparr> in
           and_then (reslice data 0 (uint (db_Length db))) (\<lambda>src.
           Returns (db\<lparr>db_Data := copy (db_Data db) src, db_OK := True\<rparr>)))"

section \<open>Fragmenter\<close>

record DataFragment =
  df_Data :: byte_slice
  df_Stored :: int
  df_Needed :: int
  df_CRC :: "32 word"

lemma and_then_cong [fundef_cong]:
  "m = m' \<Longrightarrow> (\<And>x. m' = Returns x \<Longrightarrow> f x = f' x) \<Longrightarrow> and_then m f = and_then m' f'"
  by (cases m') simp_all

text \<open>
  Lines 132 to 143: the loop \<^verbatim>\<open>for i := 0; i < limit; i += 2\<close> that feeds the fragment
  to the CRC-32 accumulator; \<open>stored\<close> is \<^verbatim>\<open>df.Stored\<close> and \<open>limit\<close> is
  \<^verbatim>\<open>df.Needed*blockCap - 4\<close>.
\<close>

function fragmentCRC32 :: "byte_slice \<Rightarrow> int \<Rightarrow> int \<Rightarrow> int \<Rightarrow> 32 word \<Rightarrow> 32 word outcome" where
  "fragmentCRC32 data stored limit i crc =
     (if i < limit then
        and_then (if i + 1 < stored then index data (i + 1) else Returns 0) (\<lambda>b1.
        and_then (if i < stored then index data i else Returns 0) (\<lambda>b0.
        fragmentCRC32 data stored limit (i + 2) (crc32 (crc32 crc b1) b0)))
      else Returns crc)"
  by pat_completeness auto
termination
  by (relation "measure (\<lambda>(data, stored, limit, i, crc). nat (limit - i))") auto

declare fragmentCRC32.simps [simp del]

text \<open>\<^verbatim>\<open>block.Data[i] = v\<close>.\<close>

definition storeData :: "DataBlock \<Rightarrow> int \<Rightarrow> byte \<Rightarrow> DataBlock outcome" where
  "storeData block i v =
     and_then (store (db_Data block) i v) (\<lambda>d. Returns (block\<lparr>db_Data := d\<rparr>))"

text \<open>
  Lines 151 to 174: the body of \<^verbatim>\<open>for i := range blocks\<close>; the loop state is the
  counter \<^verbatim>\<open>stored\<close> and the slice \<^verbatim>\<open>blocks\<close> of block pointers.
\<close>

definition blockBody ::
  "DataFragment \<Rightarrow> int \<Rightarrow> byte \<Rightarrow> int \<Rightarrow> int \<times> DataBlock option list
     \<Rightarrow> (int \<times> DataBlock option list) outcome" where
  "blockBody df blockCap dataType i st =
     (let (stored, blocks) = st;
          block = \<lparr>db_Serial = word_of_int (i smod 128), db_CRC = 0, db_OK = False,
                   db_Data = nil_slice, db_Length = word_of_int blockCap\<rparr>;
          block = block\<lparr>db_Data := make_bytes (unat (db_Length block))\<rparr>;
          store = uint (db_Length block);
          store = (if df_Stored df - stored < store then df_Stored df - stored else store)
      in and_then (reslice (df_Data df) stored (stored + store)) (\<lambda>src.
         let block = block\<lparr>db_Data := copy (db_Data block) src\<rparr>;
             stored = stored + store
         in and_then
              (if i = df_Needed df - 1 then
                 and_then (storeData block (uint (db_Length block - 1))
                             (ucast (drop_bit 24 (df_CRC df)))) (\<lambda>block.
                 and_then (storeData block (uint (db_Length block - 2))
                             (ucast (drop_bit 16 (df_CRC df)))) (\<lambda>block.
                 and_then (storeData block (uint (db_Length block - 3))
                             (ucast (drop_bit 8 (df_CRC df)))) (\<lambda>block.
                 storeData block (uint (db_Length block - 4)) (ucast (df_CRC df)))))
               else Returns block) (\<lambda>block.
            let block = block\<lparr>db_CRC := calculateCRC9 (db_Serial block) (db_Data block) dataType\<rparr>
            in Returns (stored, blocks[nat i := Some block]))))"

text \<open>
  \<^verbatim>\<open>DataBlocks\<close> has a pointer receiver and writes \<^verbatim>\<open>Stored\<close>, \<^verbatim>\<open>Needed\<close> and
  \<^verbatim>\<open>CRC\<close> of the fragment: the model returns the fragment after the call with the blocks.
  The division of line 124 panics on a zero divisor.
\<close>

definition DataBlocks ::
  "DataFragment \<Rightarrow> byte \<Rightarrow> bool \<Rightarrow> (DataFragment \<times> DataBlock option list) outcome" where
  "DataBlocks df dataType confirm =
     (let df = df\<lparr>df_Stored := len (df_Data df)\<rparr>;
          df = (if df_Stored df > MaxPacketFragmentSize
                then df\<lparr>df_Stored := MaxPacketFragmentSize\<rparr> else df);
          blockCap = userDataLength dataType confirm
      in if blockCap = 0 then Panics IntegerDivideByZero
         else
           let df = df\<lparr>df_Needed := (df_Stored df + blockCap - 1) sdiv blockCap\<rparr>;
               df = (if df_Needed df * blockCap - df_Stored df < 4
                     then df\<lparr>df_Needed := df_Needed df + 1\<rparr> else df)
           in and_then
                (fragmentCRC32 (df_Data df) (df_Stored df) (df_Needed df * blockCap - 4) 0
                   (df_CRC df)) (\<lambda>crc.
              let df = df\<lparr>df_CRC := crc32end crc\<rparr> in
              and_then
                (for_range (blockBody df blockCap dataType) (map int [0..<nat (df_Needed df)])
                   (0, replicate (nat (df_Needed df)) None)) (\<lambda>st.
              Returns (df, snd st))))"

section \<open>Reassembler\<close>

text \<open>
  Lines 194 and 195 (and again 199 and 200):
  \<^verbatim>\<open>copy(f.Data[f.Stored:], block.Data[:block.Length]); f.Stored += int(block.Length)\<close>.
\<close>

definition appendBlock :: "DataFragment \<Rightarrow> DataBlock \<Rightarrow> DataFragment outcome" where
  "appendBlock f block =
     and_then (reslice (df_Data f) (df_Stored f) (len (df_Data f))) (\<lambda>w.
     and_then (reslice (db_Data block) 0 (uint (db_Length block))) (\<lambda>src.
     Returns (f\<lparr>df_Data := write_back (df_Data f) (df_Stored f) (copy w src),
                df_Stored := df_Stored f + uint (db_Length block)\<rparr>)))"

text \<open>
  Lines 189 to 207: the body of \<^verbatim>\<open>for i, block := range blocks\<close>, with \<open>n\<close> for
  \<^verbatim>\<open>len(blocks)\<close>. A nil block pointer panics at \<^verbatim>\<open>block.Length\<close>.
\<close>

definition combineBody :: "int \<Rightarrow> int \<times> DataBlock option \<Rightarrow> DataFragment \<Rightarrow> DataFragment outcome" where
  "combineBody n ib f =
     (case snd ib of
        None \<Rightarrow> Panics NilDereference
      | Some block \<Rightarrow>
          if db_Length block = 0 then Returns f
          else if fst ib < n - 1 then
            (if df_Stored f + uint (db_Length block) < len (df_Data f)
             then appendBlock f block else Returns f)
          else
            and_then
              (if df_Stored f + uint (db_Length block) - 4 < len (df_Data f)
               then appendBlock f block else Returns f) (\<lambda>f.
            let f = f\<lparr>df_CRC := 0\<rparr> in
            and_then (index (db_Data block) (uint (db_Length block - 4))) (\<lambda>b.
            let f = f\<lparr>df_CRC := df_CRC f OR ucast b\<rparr> in
            and_then (index (db_Data block) (uint (db_Length block - 3))) (\<lambda>b.
            let f = f\<lparr>df_CRC := df_CRC f OR push_bit 8 (ucast b)\<rparr> in
            and_then (index (db_Data block) (uint (db_Length block - 2))) (\<lambda>b.
            let f = f\<lparr>df_CRC := df_CRC f OR push_bit 16 (ucast b)\<rparr> in
            and_then (index (db_Data block) (uint (db_Length block - 1))) (\<lambda>b.
            let f = f\<lparr>df_CRC := df_CRC f OR push_bit 24 (ucast b)\<rparr> in
            Returns f))))))"

text \<open>Lines 211 to 214: the loop \<^verbatim>\<open>for i := 0; i < f.Stored-4; i += 2\<close>.\<close>

function combineCRC32 :: "byte_slice \<Rightarrow> int \<Rightarrow> int \<Rightarrow> 32 word \<Rightarrow> 32 word outcome" where
  "combineCRC32 data limit i crc =
     (if i < limit then
        and_then (index data (i + 1)) (\<lambda>b1.
        and_then (index data i) (\<lambda>b0.
        combineCRC32 data limit (i + 2) (crc32 (crc32 crc b1) b0)))
      else Returns crc)"
  by pat_completeness auto
termination
  by (relation "measure (\<lambda>(data, limit, i, crc). nat (limit - i))") auto

declare combineCRC32.simps [simp del]

definition CombineDataBlocks :: "DataBlock option list \<Rightarrow> DataFragment outcome" where
  "CombineDataBlocks blocks =
     (if blocks = [] then Fails NoDataBlocks
      else
        let f = \<lparr>df_Data = make_bytes (nat MaxPacketFragmentSize), df_Stored = 0,
                 df_Needed = 0, df_CRC = 0\<rparr>
        in and_then
             (for_range (combineBody (int (length blocks)))
                (zip (map int [0..<length blocks]) blocks) f) (\<lambda>f.
           and_then (combineCRC32 (df_Data f) (df_Stored f - 4) 0 0) (\<lambda>crc.
           let crc = crc32end crc in
           if crc \<noteq> df_CRC f then Fails (FragmentCRCError crc (df_CRC f))
           else Returns f)))"

section \<open>Reference notions for the statements\<close>

text \<open>The three rate types of the table \<^verbatim>\<open>dataBlockLengths\<close>.\<close>

definition knownRate :: "byte \<Rightarrow> bool" where
  "knownRate dataType \<longleftrightarrow> dataType = Rate12Data \<or> dataType = Rate34Data \<or> dataType = Data"

text \<open>A list with the two bytes of every pair exchanged: the order the CRC-32 is fed in.\<close>

fun swap_pairs :: "'a list \<Rightarrow> 'a list" where
  "swap_pairs (a # b # xs) = b # a # swap_pairs xs"
| "swap_pairs xs = xs"

text \<open>The byte at offset \<open>j\<close> of the zero-padded fragment.\<close>

definition byteAt :: "byte_slice \<Rightarrow> nat \<Rightarrow> nat \<Rightarrow> byte" where
  "byteAt data stored j = (if j < stored then elems data ! j else 0)"

text \<open>The trailer: the four bytes of the CRC-32, least significant first.\<close>

definition crcBytes :: "32 word \<Rightarrow> byte list" where
  "crcBytes c = [ucast c, ucast (drop_bit 8 c), ucast (drop_bit 16 c), ucast (drop_bit 24 c)]"

text \<open>A fragment as a caller builds it from a payload: \<^verbatim>\<open>&DataFragment{Data: p}\<close>.\<close>

definition newFragment :: "byte list \<Rightarrow> DataFragment" where
  "newFragment p =
     \<lparr>df_Data = \<lparr>elems = p, spare = []\<rparr>, df_Stored = 0, df_Needed = 0, df_CRC = 0\<rparr>"

text \<open>
  What section 4.3 of the spec asks of block \<open>k\<close>: the \<open>m\<close> bytes of the zero-padded
  fragment from offset \<open>k * m\<close>, the last four replaced by the trailer in the final block;
  serial \<open>k mod 128\<close>; the CRC-9 of serial and payload. Here \<open>df\<close> is the fragment after
  \<^verbatim>\<open>Stored\<close>, \<^verbatim>\<open>Needed\<close> and \<^verbatim>\<open>CRC\<close> were set.
\<close>

definition expData :: "DataFragment \<Rightarrow> nat \<Rightarrow> nat \<Rightarrow> byte list" where
  "expData df m k =
     (let xs = map (byteAt (df_Data df) (nat (df_Stored df))) [k * m..<k * m + m]
      in if int k = df_Needed df - 1 then take (m - 4) xs @ crcBytes (df_CRC df) else xs)"

definition expBlock :: "DataFragment \<Rightarrow> nat \<Rightarrow> byte \<Rightarrow> nat \<Rightarrow> DataBlock" where
  "expBlock df m dt k =
     (let d = \<lparr>elems = expData df m k, spare = []\<rparr>; s = of_nat (k mod 128)
      in \<lparr>db_Serial = s, db_CRC = calculateCRC9 s d dt, db_OK = False, db_Data = d,
          db_Length = of_nat m\<rparr>)"

section \<open>Rate table\<close>

lemma rate_codes_distinct:
  "Rate12Data \<noteq> Rate34Data" "Rate12Data \<noteq> Data" "Rate34Data \<noteq> Data"
  "Rate34Data \<noteq> Rate12Data" "Data \<noteq> Rate12Data" "Data \<noteq> Rate34Data"
  by (simp_all add: Rate12Data_def Rate34Data_def Data_def)

lemma userDataLength_Rate12Data: "userDataLength Rate12Data c = (if c then 10 else 12)"
  by (simp add: userDataLength_def dataBlockLengths_def rate_codes_distinct)

lemma userDataLength_Rate34Data: "userDataLength Rate34Data c = (if c then 16 else 18)"
  by (simp add: userDataLength_def dataBlockLengths_def rate_codes_distinct)

lemma userDataLength_Data: "userDataLength Data c = (if c then 20 else 22)"
  by (simp add: userDataLength_def dataBlockLengths_def rate_codes_distinct)

lemma userDataLength_unknown: "\<not> knownRate dt \<Longrightarrow> userDataLength dt c = 0"
  by (simp add: userDataLength_def dataBlockLengths_def knownRate_def)

lemma userDataLength_known:
  "knownRate dt \<Longrightarrow> userDataLength dt c \<in> {10, 12, 16, 18, 20, 22}"
  by (auto simp: knownRate_def userDataLength_Rate12Data userDataLength_Rate34Data
      userDataLength_Data split: if_splits)

section \<open>Reassembly of no blocks\<close>

text \<open>
  Claim C8. \<^verbatim>\<open>CombineDataBlocks\<close> called with an empty (or nil) sequence of blocks fails
  with the error "no data blocks to combine" and returns no fragment.
\<close>

theorem CombineDataBlocks_empty: "CombineDataBlocks [] = Fails NoDataBlocks"
  by (simp add: CombineDataBlocks_def)

section \<open>The checksum loops as folds\<close>

lemma upt_two: "[i..<i + 2 * Suc k] = i # Suc i # [i + 2..<(i + 2) + 2 * k]"
  by (simp add: upt_rec)

lemma fragmentCRC32_eq:
  assumes "stored \<le> length (elems data)"
  shows "fragmentCRC32 data (int stored) (int (i + 2 * k)) (int i) crc
         = Returns (foldl crc32 crc (swap_pairs (map (byteAt data stored) [i..<i + 2 * k])))"
proof (induction k arbitrary: i crc)
  case 0
  show ?case by (subst fragmentCRC32.simps) simp
next
  case (Suc k)
  have idx1: "Suc i < stored \<Longrightarrow> index data (1 + int i) = Returns (elems data ! Suc i)"
    using assms by (simp add: index_def len_def nat_add_distrib)
  have idx0: "i < stored \<Longrightarrow> index data (int i) = Returns (elems data ! i)"
    using assms by (simp add: index_def len_def)
  have step: "fragmentCRC32 data (int stored) (int (i + 2 * Suc k)) (int i) crc
      = fragmentCRC32 data (int stored) (int ((i + 2) + 2 * k)) (int (i + 2))
          (crc32 (crc32 crc (byteAt data stored (Suc i))) (byteAt data stored i))"
    by (subst fragmentCRC32.simps) (simp add: byteAt_def idx1 idx0 ac_simps)
  show ?case
    unfolding step Suc.IH upt_two by simp
qed

lemma combineCRC32_eq:
  assumes "i + 2 * k \<le> length (elems data)"
  shows "combineCRC32 data (int (i + 2 * k)) (int i) crc
         = Returns (foldl crc32 crc (swap_pairs (map ((!) (elems data)) [i..<i + 2 * k])))"
  using assms
proof (induction k arbitrary: i crc)
  case 0
  show ?case by (subst combineCRC32.simps) simp
next
  case (Suc k)
  have idx1: "index data (1 + int i) = Returns (elems data ! Suc i)"
    using Suc.prems by (simp add: index_def len_def nat_add_distrib)
  have idx0: "index data (int i) = Returns (elems data ! i)"
    using Suc.prems by (simp add: index_def len_def)
  have step: "combineCRC32 data (int (i + 2 * Suc k)) (int i) crc
      = combineCRC32 data (int ((i + 2) + 2 * k)) (int (i + 2))
          (crc32 (crc32 crc (elems data ! Suc i)) (elems data ! i))"
    by (subst combineCRC32.simps) (simp add: idx1 idx0 ac_simps)
  have le: "(i + 2) + 2 * k \<le> length (elems data)" using Suc.prems by simp
  show ?case
    unfolding step Suc.IH[OF le] upt_two by simp
qed

lemma map_byteAt:
  assumes "stored \<le> length (elems data)" "stored \<le> n"
  shows "map (byteAt data stored) [0..<n] = take stored (elems data) @ replicate (n - stored) 0"
  using assms by (intro nth_equalityI) (auto simp: byteAt_def nth_append)

section \<open>Bytes and words\<close>

lemma crc_word_of_bytes:
  "((0 OR ucast (ucast c :: byte)) OR push_bit 8 (ucast (ucast (drop_bit 8 c) :: byte))
      OR push_bit 16 (ucast (ucast (drop_bit 16 c) :: byte))
      OR push_bit 24 (ucast (ucast (drop_bit 24 c) :: byte))) = (c :: 32 word)"
  (is "?l = c")
proof (rule bit_word_eqI)
  fix n :: nat
  assume n: "n < LENGTH(32)"
  consider "n < 8" | "8 \<le> n" "n < 16" | "16 \<le> n" "n < 24" | "24 \<le> n" "n < 32"
    using n by fastforce
  then show "bit ?l n = bit c n"
    by cases (auto simp add: bit_or_iff bit_push_bit_iff bit_word_ucast_iff bit_drop_bit_eq)
qed

section \<open>One iteration of the block loop\<close>

lemma unat_blen: "m < 256 \<Longrightarrow> unat (of_nat m :: byte) = m"
  by (simp add: unat_of_nat)

lemma uint_blen: "m < 256 \<Longrightarrow> uint (of_nat m :: byte) = int m"
  by (simp add: uint_nat unat_blen)

lemma unat_blen': "m < 256 \<Longrightarrow> unat (word_of_int (int m) :: byte) = m"
  using unat_blen by simp

lemma uint_blen': "m < 256 \<Longrightarrow> uint (word_of_int (int m) :: byte) = int m"
  using uint_blen by simp

lemma uint_blen_minus:
  assumes "m < 256" "j \<le> m"
  shows "uint (of_nat m - of_nat j :: byte) = int m - int j"
proof -
  have "of_nat m - of_nat j = (of_nat (m - j) :: byte)"
    using assms by (simp add: of_nat_diff)
  then show ?thesis using assms uint_blen[of "m - j"] by (simp add: of_nat_diff)
qed

lemma smod_128: "int k smod 128 = int (k mod 128)"
  by (simp add: smod_mod_positive zmod_int)

lemma trailer_updates:
  assumes "length xs = n" "4 \<le> n"
  shows "xs[n - 1 := d, n - 2 := c, n - 3 := b, n - 4 := a] = take (n - 4) xs @ [a, b, c, d]"
  using assms
  by (intro nth_equalityI) (auto simp: nth_append nth_list_update nth_Cons split: nat.splits)

lemma storeData_eq:
  "0 \<le> i \<Longrightarrow> i < int (length (elems (db_Data b))) \<Longrightarrow>
   storeData b i v = Returns (b\<lparr>db_Data := (db_Data b)\<lparr>elems := (elems (db_Data b))[nat i := v]\<rparr>\<rparr>)"
  by (simp add: storeData_def store_def len_def)

lemma chunk_eq:
  assumes "S \<le> length p"
  shows "take (min m (S - min (k * m) S)) (drop (min (k * m) S) p)
           @ replicate (m - min m (S - min (k * m) S)) 0
         = map (\<lambda>j. if j < S then p ! j else 0) [k * m..<k * m + m]"
proof (cases "k * m \<le> S")
  case True
  define store where "store = min m (S - k * m)"
  have "take store (drop (k * m) p) @ replicate (m - store) 0
        = map (\<lambda>j. if j < S then p ! j else 0) [k * m..<k * m + m]"
  proof (rule nth_equalityI)
    show "length (take store (drop (k * m) p) @ replicate (m - store) 0)
          = length (map (\<lambda>j. if j < S then p ! j else 0) [k * m..<k * m + m])"
      using assms True by (simp add: store_def)
  next
    fix i
    assume "i < length (take store (drop (k * m) p) @ replicate (m - store) 0)"
    then have i: "i < m" using assms True by (simp add: store_def)
    show "(take store (drop (k * m) p) @ replicate (m - store) 0) ! i
          = map (\<lambda>j. if j < S then p ! j else 0) [k * m..<k * m + m] ! i"
      using i assms True by (auto simp: nth_append store_def)
  qed
  then show ?thesis using True by (simp add: store_def min_absorb1)
next
  case False
  then have "min (k * m) S = S" by simp
  moreover have "map (\<lambda>j. if j < S then p ! j else 0) [k * m..<k * m + m] = replicate m 0"
    using False by (intro nth_equalityI) auto
  ultimately show ?thesis by simp
qed

lemma blockBody_eq:
  assumes S: "df_Stored df = int S" and len: "S \<le> length (elems (df_Data df))"
    and N: "df_Needed df = int N" and m: "4 \<le> m" "m < 256" and k: "k < N"
  shows "blockBody df (int m) dt (int k) (int (min (k * m) S), bs)
         = Returns (int (min (Suc k * m) S), bs[k := Some (expBlock df m dt k)])"
proof -
  define stored where "stored = min (k * m) S"
  define store where "store = min m (S - stored)"
  define p where "p = elems (df_Data df)"
  have stored_le: "stored \<le> S" by (simp add: stored_def)
  have st: "(if df_Stored df - int stored < int m then df_Stored df - int stored else int m) = int store"
    unfolding S store_def using stored_le by (auto simp: min_def)
  have "stored + store = min (Suc k * m) S"
    unfolding store_def stored_def by (auto simp: min_def)
  then have next_stored: "int stored + int store = int (min (Suc k * m) S)"
    by (metis of_nat_add)
  have store_le: "stored + store \<le> S" unfolding store_def using stored_le by simp
  obtain sp where rs0: "reslice (df_Data df) (int stored) (int stored + int store)
       = Returns \<lparr>elems = take store (drop stored p), spare = sp\<rparr>"
    using len store_le unfolding reslice_def cap_def p_def
    by (auto simp: nat_add_distrib)
  have rs: "reslice (df_Data df) (int stored) (int (min (m + k * m) S))
       = Returns \<lparr>elems = take store (drop stored p), spare = sp\<rparr>"
    using rs0 unfolding next_stored by simp
  have cp: "copy (make_bytes m) \<lparr>elems = take store (drop stored p), spare = sp\<rparr>
       = \<lparr>elems = map (byteAt (df_Data df) S) [k * m..<k * m + m], spare = []\<rparr>"
  proof -
    have "min m (length p - stored) = store \<or> length p - stored \<ge> store"
      using len store_le by (auto simp: p_def)
    have l: "min m (min (length p - stored) store) = store"
      using len store_le by (auto simp: p_def store_def)
    show ?thesis
      using chunk_eq[OF len[folded p_def], of m k] l
      unfolding copy_def make_bytes_def byteAt_def p_def[symmetric] store_def[symmetric] stored_def[symmetric]
      by (simp add: Let_def store_def[symmetric] stored_def[symmetric])
  qed
  have u1: "uint (of_nat m - 1 :: byte) = int m - 1"
    using uint_blen_minus[of m 1] m by simp
  have u2: "uint (of_nat m - 2 :: byte) = int m - 2"
    using uint_blen_minus[of m 2] m by simp
  have u3: "uint (of_nat m - 3 :: byte) = int m - 3"
    using uint_blen_minus[of m 3] m by simp
  have u4: "uint (of_nat m - 4 :: byte) = int m - 4"
    using uint_blen_minus[of m 4] m by simp
  have u': "uint (word_of_int (int m) - 1 :: byte) = int m - 1"
    "uint (word_of_int (int m) - 2 :: byte) = int m - 2"
    "uint (word_of_int (int m) - 3 :: byte) = int m - 3"
    "uint (word_of_int (int m) - 4 :: byte) = int m - 4"
    using u1 u2 u3 u4 by simp_all
  note bl = uint_blen[OF m(2)] unat_blen[OF m(2)] uint_blen'[OF m(2)] unat_blen'[OF m(2)]
  have n1: "nat (int m - 1) = m - 1" "nat (int m - 2) = m - 2" "nat (int m - 3) = m - 3"
    "nat (int m - 4) = m - 4" by simp_all
  have xs_len: "length (map (byteAt (df_Data df) S) [k * m..<k * m + m]) = m" by simp
  have tu: "(map (byteAt (df_Data df) S) [k * m..<k * m + m])
               [m - Suc 0 := d, m - 2 := c, m - 3 := b, m - 4 := a]
             = take (m - 4) (map (byteAt (df_Data df) S) [k * m..<k * m + m]) @ [a, b, c, d]"
    for a b c d
    using trailer_updates[OF xs_len m(1), of d c b a] by simp
  show ?thesis
  proof (cases "Suc k = N")
    case True
    then have kN: "(int k = df_Needed df - 1) = True" unfolding N by auto
    have ed: "expData df m k = take (m - 4) (map (byteAt (df_Data df) S) [k * m..<k * m + m]) @ crcBytes (df_CRC df)"
      by (simp add: expData_def kN S Let_def)
    show ?thesis
      unfolding blockBody_def stored_def[symmetric]
      using m
      apply (simp add: Let_def bl st rs cp smod_128 kN
          u1 u2 u3 u4 u' n1 storeData_eq
          next_stored[unfolded stored_def[symmetric]] cong del: if_weak_cong)
      apply (simp add: expBlock_def ed Let_def tu crcBytes_def)
      done
  next
    case False
    then have kN: "(int k = df_Needed df - 1) = False" unfolding N by auto
    have ed: "expData df m k = map (byteAt (df_Data df) S) [k * m..<k * m + m]"
      by (simp add: expData_def kN S Let_def)
    show ?thesis
      unfolding blockBody_def stored_def[symmetric]
      apply (simp add: Let_def bl st rs cp smod_128 kN
          next_stored[unfolded stored_def[symmetric]] cong del: if_weak_cong)
      apply (simp add: expBlock_def ed Let_def)
      done
  qed
qed

end
